theory Spec2Isabelle
  imports Complex_Main "HOL-Library.Word"
begin

section \<open>The Porcupine keyword detector\<close>

text \<open>
  A shallow embedding of \<^verbatim>\<open>KWD/Porcupine/src/PorcupineKeyWordDetector.cpp\<close>.
  Every call the detector makes to a collaborator (the logger, the native engine, the
  audio stream and its reader, the observers, the thread library) is an event of a
  trace, in program order. What a collaborator answers is an input of the model.
\<close>

subsection \<open>Data\<close>

text \<open>
  Modelled from the spec: \<^verbatim>\<open>avsCommon::utils::AudioFormat\<close> and its two enumerations
  are declared outside the two source files. The record has the five fields of the
  specification's format descriptor, under the names the source reads them by; the three
  counts are \<^verbatim>\<open>unsigned int\<close>.
\<close>

datatype Encoding = LPCM | OPUS

datatype Endianness = LITTLE | BIG

record AudioFormat =
  encoding :: Encoding
  endianness :: Endianness
  sampleRateHz :: "32 word"
  sampleSizeInBits :: "32 word"
  numChannels :: "32 word"

text \<open>
  Modelled from the spec: the detector states pushed to the state observers (declared
  in \<^verbatim>\<open>KeyWordDetectorStateObserverInterface\<close>) and the status codes of the engine
  (declared in \<^verbatim>\<open>pv_porcupine.h\<close>), neither among the source files.
\<close>

datatype KeyWordDetectorState = ACTIVE | ERROR

datatype pv_status_t =
    PV_STATUS_SUCCESS
  | PV_STATUS_OUT_OF_MEMORY
  | PV_STATUS_IO_ERROR
  | PV_STATUS_INVALID_ARGUMENT

text \<open>\<^verbatim>\<open>int16_t\<close> samples, \<^verbatim>\<open>AudioInputStream::Index\<close> cursors, \<^verbatim>\<open>size_t\<close> sizes.\<close>

type_synonym sample = "16 word"

type_synonym Index = "64 word"

type_synonym stream_ref = nat

text \<open>
  Modelled from the spec: \<^verbatim>\<open>KeyWordObserverInterface::UNSPECIFIED_INDEX\<close>, the
  specification's UNSPECIFIED span index, is declared outside the source files. It is
  taken as the largest value of \<^verbatim>\<open>Index\<close>.
\<close>

definition UNSPECIFIED_INDEX :: Index where
  "UNSPECIFIED_INDEX = - 1"

subsection \<open>Events\<close>

datatype event =
    LogError string string
      \<comment> \<open>\<^verbatim>\<open>ACSDK_ERROR(LX(event).d("reason", reason))\<close>\<close>
  | PvPorcupineInit string string real pv_status_t
      \<comment> \<open>\<^verbatim>\<open>pv_porcupine_init(confPath, keywordPath, sensitivity, &m_porcupine)\<close> and its status\<close>
  | PvPorcupineProcess "sample list" pv_status_t bool
      \<comment> \<open>\<^verbatim>\<open>pv_porcupine_process\<close> on the frame at the buffer head, its status and \<^verbatim>\<open>result\<close>\<close>
  | PvPorcupineDelete
      \<comment> \<open>\<^verbatim>\<open>pv_porcupine_delete\<close>, the engine's release call\<close>
  | CreateReader bool
      \<comment> \<open>\<^verbatim>\<open>m_stream->createReader(BLOCKING)\<close>, and whether a reader came back\<close>
  | ThreadStart
      \<comment> \<open>\<^verbatim>\<open>std::thread(&PorcupineKeyWordDetector::detectionLoop, this)\<close>\<close>
  | ThreadJoin
      \<comment> \<open>\<^verbatim>\<open>m_detectionThread.join()\<close>\<close>
  | NotifyState KeyWordDetectorState
      \<comment> \<open>\<^verbatim>\<open>notifyKeyWordDetectorStateObservers\<close>\<close>
  | NotifyKeyWord stream_ref string Index Index
      \<comment> \<open>\<^verbatim>\<open>notifyKeyWordObservers(stream, keyword, beginIndex, endIndex)\<close>\<close>
  | ReadFromStream "64 word"
      \<comment> \<open>\<^verbatim>\<open>readFromStream\<close> for at most that many samples\<close>
  | ReaderTell Index
      \<comment> \<open>\<^verbatim>\<open>m_streamReader->tell()\<close> and the cursor it returned\<close>
  | ReaderClose
      \<comment> \<open>\<^verbatim>\<open>m_streamReader->close()\<close>\<close>

subsection \<open>The format check\<close>

text \<open>
  \<^verbatim>\<open>isAudioFormatCompatibleWithPorcupine\<close>: the verdict, and the error it logs.
\<close>

definition isAudioFormatCompatibleWithPorcupine :: "AudioFormat \<Rightarrow> bool \<times> event list" where
  "isAudioFormatCompatibleWithPorcupine audioFormat =
     (if numChannels audioFormat \<noteq> 1 then
        (False, [LogError ''isAudioFormatCompatibleWithPorcupineFailed'' ''numChannelsMismatch''])
      else if sampleRateHz audioFormat \<noteq> 16000 then
        (False, [LogError ''isAudioFormatCompatibleWithPorcupineFailed'' ''sampleRateMismatch''])
      else if sampleSizeInBits audioFormat \<noteq> 16 then
        (False, [LogError ''isAudioFormatCompatibleWithPorcupineFailed'' ''sampleSizeInBitsMismatch''])
      else if endianness audioFormat \<noteq> LITTLE then
        (False, [LogError ''isAudioFormatCompatibleWithPorcupineFailed'' ''endiannessMismatch''])
      else if encoding audioFormat \<noteq> LPCM then
        (False, [LogError ''isAudioFormatCompatibleWithPorcupineFailed'' ''encodingMismatch''])
      else (True, []))"

text \<open>
  The validator as the specification words it: the required descriptor, the five
  fields in their fixed order, and the first of them that differs.
\<close>

datatype format_field = ChannelCount | SampleRate | SampleSize | EndiannessField | EncodingField

definition required_format :: AudioFormat where
  "required_format =
     \<lparr>encoding = LPCM, endianness = LITTLE, sampleRateHz = 16000,
      sampleSizeInBits = 16, numChannels = 1\<rparr>"

fun field_matches :: "AudioFormat \<Rightarrow> format_field \<Rightarrow> bool" where
  "field_matches f ChannelCount = (numChannels f = numChannels required_format)"
| "field_matches f SampleRate = (sampleRateHz f = sampleRateHz required_format)"
| "field_matches f SampleSize = (sampleSizeInBits f = sampleSizeInBits required_format)"
| "field_matches f EndiannessField = (endianness f = endianness required_format)"
| "field_matches f EncodingField = (encoding f = encoding required_format)"

definition check_order :: "format_field list" where
  "check_order = [ChannelCount, SampleRate, SampleSize, EndiannessField, EncodingField]"

definition first_mismatch :: "AudioFormat \<Rightarrow> format_field option" where
  "first_mismatch f = find (\<lambda>fld. \<not> field_matches f fld) check_order"

fun mismatch_reason :: "format_field \<Rightarrow> string" where
  "mismatch_reason ChannelCount = ''numChannelsMismatch''"
| "mismatch_reason SampleRate = ''sampleRateMismatch''"
| "mismatch_reason SampleSize = ''sampleSizeInBitsMismatch''"
| "mismatch_reason EndiannessField = ''endiannessMismatch''"
| "mismatch_reason EncodingField = ''encodingMismatch''"

definition FormatValidator :: "AudioFormat \<Rightarrow> bool \<times> event list" where
  "FormatValidator f =
     (case first_mismatch f of
        None \<Rightarrow> (True, [])
      | Some fld \<Rightarrow>
          (False, [LogError ''isAudioFormatCompatibleWithPorcupineFailed'' (mismatch_reason fld)]))"

subsection \<open>The detector object\<close>

text \<open>
  The fields of \<^verbatim>\<open>PorcupineKeyWordDetector\<close>. \<^verbatim>\<open>m_porcupine\<close> records whether
  \<^verbatim>\<open>pv_porcupine_init\<close> handed an engine object back, \<^verbatim>\<open>m_streamReader\<close>
  whether the reader pointer is set, \<^verbatim>\<open>m_detectionThread\<close> whether the thread is
  joinable.
\<close>

record PorcupineKeyWordDetector =
  m_isShuttingDown :: bool
  m_stream :: stream_ref
  m_streamReader :: bool
  m_detectionThread :: bool
  m_porcupine :: bool
  m_buffer :: "sample list"
  porcupineKeyword :: string
  m_maxSamplesPerPush :: "64 word"

text \<open>
  The configuration file is read through the JSON library, which is not part of the
  source files. Its extraction operator and the conversions of the four fields either
  deliver the values or throw; the source has no handler and tests neither the file
  stream nor the parsed value.
\<close>

datatype json_exception = parse_error | type_error

record PorcupineConf =
  parameters_filepath :: string
  keyword_label :: string
  keyword_filepath :: string
  sensitivity :: real

text \<open>
  What the collaborators answer during \<^verbatim>\<open>create\<close>: the base class's
  \<^verbatim>\<open>isByteswappingRequired\<close>, the outcome of reading the configuration, the status
  of \<^verbatim>\<open>pv_porcupine_init\<close>, and whether \<^verbatim>\<open>createReader\<close> returns a reader.
\<close>

record create_env =
  isByteswappingRequired :: "AudioFormat \<Rightarrow> bool"
  porcupineConf :: "json_exception + PorcupineConf"
  init_status :: pv_status_t
  reader_created :: bool

definition HERTZ_PER_KILOHERTZ :: "64 word" where
  "HERTZ_PER_KILOHERTZ = 1000"

text \<open>
  The constructor. It leaves \<^verbatim>\<open>m_isShuttingDown\<close> unassigned (\<open>False\<close> here;
  \<^verbatim>\<open>init\<close> assigns it before the thread starts). A status other than success is
  logged and nothing else.
\<close>

definition constructor ::
  "stream_ref \<Rightarrow> AudioFormat \<Rightarrow> string \<Rightarrow> string \<Rightarrow> string \<Rightarrow> real \<Rightarrow> 64 word \<Rightarrow>
   pv_status_t \<Rightarrow> PorcupineKeyWordDetector \<times> event list" where
  "constructor stream audioFormat confPath keyword keywordPath sens msToPushPerIteration status =
     (\<lparr>m_isShuttingDown = False,
       m_stream = stream,
       m_streamReader = False,
       m_detectionThread = False,
       m_porcupine = (status = PV_STATUS_SUCCESS),
       m_buffer = [],
       porcupineKeyword = keyword,
       m_maxSamplesPerPush =
         (ucast (sampleRateHz audioFormat) div HERTZ_PER_KILOHERTZ) * msToPushPerIteration\<rparr>,
      PvPorcupineInit confPath keywordPath sens status #
      (if status \<noteq> PV_STATUS_SUCCESS
       then [LogError ''PorcupineKeyWordDetectorFailed'' ''Unknown''] else []))"

text \<open>\<^verbatim>\<open>init\<close>: the format check, the reader, the flag, the thread.\<close>

definition init ::
  "bool \<Rightarrow> AudioFormat \<Rightarrow> PorcupineKeyWordDetector \<Rightarrow>
   bool \<times> PorcupineKeyWordDetector \<times> event list" where
  "init reader_ok audioFormat d =
     (case isAudioFormatCompatibleWithPorcupine audioFormat of
        (False, logged) \<Rightarrow> (False, d, logged)
      | (True, logged) \<Rightarrow>
          if \<not> reader_ok then
            (False, d\<lparr>m_streamReader := False\<rparr>,
             logged @ [CreateReader False, LogError ''initFailed'' ''createStreamReaderFailed''])
          else
            (True,
             d\<lparr>m_streamReader := True, m_isShuttingDown := False, m_detectionThread := True\<rparr>,
             logged @ [CreateReader True, ThreadStart]))"

text \<open>The destructor: raise the flag, join the thread if there is one to join.\<close>

definition destructor :: "PorcupineKeyWordDetector \<Rightarrow> PorcupineKeyWordDetector \<times> event list" where
  "destructor d =
     (if m_detectionThread d
      then (d\<lparr>m_isShuttingDown := True, m_detectionThread := False\<rparr>, [ThreadJoin])
      else (d\<lparr>m_isShuttingDown := True\<rparr>, []))"

text \<open>
  \<^verbatim>\<open>create\<close>. The result is \<open>Inr (Some d)\<close> for a detector, \<open>Inr None\<close> for
  \<^verbatim>\<open>nullptr\<close>, and \<open>Inl e\<close> when an exception leaves the function. Where
  \<^verbatim>\<open>nullptr\<close> is returned after construction, the local \<^verbatim>\<open>unique_ptr\<close> destroys
  the object.
\<close>

definition create ::
  "create_env \<Rightarrow> stream_ref option \<Rightarrow> AudioFormat \<Rightarrow> 64 word \<Rightarrow>
   (json_exception + PorcupineKeyWordDetector option) \<times> event list" where
  "create env stream audioFormat msToPushPerIteration =
     (case stream of
        None \<Rightarrow> (Inr None, [LogError ''createFailed'' ''nullStream''])
      | Some s \<Rightarrow>
          if isByteswappingRequired env audioFormat then
            (Inr None, [LogError ''createFailed'' ''endianMismatch''])
          else
            (case porcupineConf env of
               Inl e \<Rightarrow> (Inl e, [])
             | Inr conf \<Rightarrow>
                 (case constructor s audioFormat (parameters_filepath conf) (keyword_label conf)
                         (keyword_filepath conf) (sensitivity conf) msToPushPerIteration
                         (init_status env) of
                    (detector, built) \<Rightarrow>
                      (case init (reader_created env) audioFormat detector of
                         (False, detector', started) \<Rightarrow>
                           (Inr None,
                            built @ started @ [LogError ''createFailed'' ''initDetectorFailed'']
                              @ snd (destructor detector'))
                       | (True, detector', started) \<Rightarrow>
                           (Inr (Some detector'), built @ started)))))"

subsection \<open>The detection loop\<close>

text \<open>
  What the worker thread meets during one pass of the loop: the value of
  \<^verbatim>\<open>m_isShuttingDown\<close> at the loop test, what \<^verbatim>\<open>readFromStream\<close> reports and
  leaves in \<^verbatim>\<open>audioDataToPush\<close>, what \<^verbatim>\<open>pv_porcupine_process\<close> answers, and the
  cursor \<^verbatim>\<open>tell\<close> returns.
\<close>

record iteration =
  isShuttingDown :: bool
  didErrorOccur :: bool
  wordsRead :: int
  audioDataToPush :: "sample list"
  status :: pv_status_t
  result :: bool
  tell :: Index

text \<open>
  The body of the \<^verbatim>\<open>while\<close> loop after its test, with
  \<^verbatim>\<open>pv_porcupine_frame_length()\<close>, a non-negative \<^verbatim>\<open>int\<close> the source converts
  to \<^verbatim>\<open>size_t\<close>, as \<open>frame_length\<close>. The third component says whether the body
  leaves the loop.
\<close>

definition loopBody ::
  "nat \<Rightarrow> iteration \<Rightarrow> PorcupineKeyWordDetector \<Rightarrow>
   event list \<times> PorcupineKeyWordDetector \<times> bool" where
  "loopBody frame_length it d =
     (if didErrorOccur it then ([ReadFromStream (m_maxSamplesPerPush d)], d, True)
      else if wordsRead it > 0 then
        (let d1 = d\<lparr>m_buffer := m_buffer d @ take (nat (wordsRead it)) (audioDataToPush it)\<rparr>;
             readEvents = [ReadFromStream (m_maxSamplesPerPush d), NotifyState ACTIVE]
         in if length (m_buffer d1) > frame_length then
              (let processed =
                     PvPorcupineProcess (take frame_length (m_buffer d1)) (status it) (result it)
               in case status it of
                    PV_STATUS_SUCCESS \<Rightarrow>
                      (readEvents @ processed #
                         (if result it
                          then [ReaderTell (tell it),
                                NotifyKeyWord (m_stream d1) (porcupineKeyword d1)
                                  UNSPECIFIED_INDEX (tell it)]
                          else []),
                       d1\<lparr>m_buffer := drop frame_length (m_buffer d1)\<rparr>, False)
                  | PV_STATUS_OUT_OF_MEMORY \<Rightarrow>
                      (readEvents @ [processed, LogError ''detectionLoopFailed'' ''outOfMemory'',
                                     NotifyState ERROR], d1, True)
                  | PV_STATUS_IO_ERROR \<Rightarrow>
                      (readEvents @ [processed, LogError ''detectionLoopFailed'' ''IOError'',
                                     NotifyState ERROR], d1, True)
                  | PV_STATUS_INVALID_ARGUMENT \<Rightarrow>
                      (readEvents @ [processed, LogError ''detectionLoopFailed'' ''invalidArgument'',
                                     NotifyState ERROR], d1, True))
            else (readEvents, d1, False))
      else ([ReadFromStream (m_maxSamplesPerPush d)], d, False))"

text \<open>
  The \<^verbatim>\<open>while\<close> loop over the passes the environment supplies. The loop need not
  end: when the passes run out it is still running, and the third component is
  \<open>False\<close>; \<open>True\<close> says the loop was left.
\<close>

fun iterations ::
  "nat \<Rightarrow> iteration list \<Rightarrow> PorcupineKeyWordDetector \<Rightarrow>
   event list \<times> PorcupineKeyWordDetector \<times> bool" where
  "iterations frame_length [] d = ([], d, False)"
| "iterations frame_length (it # its) d =
     (if isShuttingDown it then ([], d, True)
      else
        (case loopBody frame_length it d of
           (es, d', True) \<Rightarrow> (es, d', True)
         | (es, d', False) \<Rightarrow>
             (case iterations frame_length its d' of
                (es', d'', left) \<Rightarrow> (es @ es', d'', left))))"

text \<open>
  \<^verbatim>\<open>detectionLoop\<close>: the first notification, the loop, and the close of the reader
  once the loop is left.
\<close>

definition detectionLoop ::
  "nat \<Rightarrow> iteration list \<Rightarrow> PorcupineKeyWordDetector \<Rightarrow>
   event list \<times> PorcupineKeyWordDetector \<times> bool" where
  "detectionLoop frame_length its d =
     (case iterations frame_length its d of
        (es, d', left) \<Rightarrow>
          (NotifyState ACTIVE # es @ (if left then [ReaderClose] else []), d', left))"

subsection \<open>Reading traces\<close>

text \<open>The kinds of event the statements below single out.\<close>

fun isStreamRead :: "event \<Rightarrow> bool" where
  "isStreamRead (ReadFromStream n) = True"
| "isStreamRead e = False"

fun isStateNotification :: "event \<Rightarrow> bool" where
  "isStateNotification (NotifyState s) = True"
| "isStateNotification e = False"

fun isProcessCall :: "event \<Rightarrow> bool" where
  "isProcessCall (PvPorcupineProcess fr st r) = True"
| "isProcessCall e = False"

text \<open>
  The samples a pass appends to \<^verbatim>\<open>m_buffer\<close>: the first \<^verbatim>\<open>wordsRead\<close> samples
  of \<^verbatim>\<open>audioDataToPush\<close> when the read reported no error and a positive count,
  none otherwise.
\<close>

definition wordsAppended :: "iteration \<Rightarrow> sample list" where
  "wordsAppended it =
     (if \<not> didErrorOccur it \<and> 0 < wordsRead it
      then take (nat (wordsRead it)) (audioDataToPush it) else [])"

subsection \<open>Concrete inputs\<close>

text \<open>
  A little-endian host, a well-formed configuration, the detector \<^verbatim>\<open>create\<close> builds
  from them for stream 7 and pushes of 20 ms, a format with two channels, and passes of
  the loop.
\<close>

definition byteswapOnLittleEndianHost :: "AudioFormat \<Rightarrow> bool" where
  "byteswapOnLittleEndianHost f = (endianness f \<noteq> LITTLE)"

definition example_conf :: PorcupineConf where
  "example_conf =
     \<lparr>parameters_filepath = ''porcupine_params.pv'', keyword_label = ''alexa'',
      keyword_filepath = ''alexa_linux.ppn'', sensitivity = 1 / 2\<rparr>"

definition example_env :: "pv_status_t \<Rightarrow> create_env" where
  "example_env st =
     \<lparr>isByteswappingRequired = byteswapOnLittleEndianHost,
      porcupineConf = Inr example_conf, init_status = st, reader_created = True\<rparr>"

definition unreadable_conf_env :: create_env where
  "unreadable_conf_env =
     \<lparr>isByteswappingRequired = byteswapOnLittleEndianHost,
      porcupineConf = Inl parse_error, init_status = PV_STATUS_SUCCESS, reader_created = True\<rparr>"

definition example_detector :: PorcupineKeyWordDetector where
  "example_detector =
     \<lparr>m_isShuttingDown = False, m_stream = 7, m_streamReader = True,
      m_detectionThread = True, m_porcupine = True, m_buffer = [],
      porcupineKeyword = ''alexa'', m_maxSamplesPerPush = 320\<rparr>"

definition two_channel_format :: AudioFormat where
  "two_channel_format = required_format\<lparr>numChannels := 2\<rparr>"

definition pass :: "int \<Rightarrow> sample list \<Rightarrow> pv_status_t \<Rightarrow> bool \<Rightarrow> iteration" where
  "pass n ws st r =
     \<lparr>isShuttingDown = False, didErrorOccur = False, wordsRead = n, audioDataToPush = ws,
      status = st, result = r, tell = 3\<rparr>"

definition stop_pass :: iteration where
  "stop_pass = (pass 0 [] PV_STATUS_SUCCESS False)\<lparr>isShuttingDown := True\<rparr>"

section \<open>Theorems\<close>

subsection \<open>The format check\<close>

lemma first_mismatch_None_iff:
  "first_mismatch f = None \<longleftrightarrow> f = required_format"
  by (cases f) (auto simp: first_mismatch_def check_order_def required_format_def)

text \<open>
  C6: the format check accepts exactly the required descriptor (1 channel, 16000 Hz,
  16 bits per sample, little endian, LPCM); any other descriptor is rejected, and the
  reason logged is that of the first field that differs, in the order channel count,
  sample rate, sample size, endianness, encoding.
\<close>

theorem format_validator_first_mismatch:
  "isAudioFormatCompatibleWithPorcupine f = FormatValidator f \<and>
   (fst (isAudioFormatCompatibleWithPorcupine f) \<longleftrightarrow> f = required_format)"
proof -
  have same: "isAudioFormatCompatibleWithPorcupine f = FormatValidator f"
    by (simp add: isAudioFormatCompatibleWithPorcupine_def FormatValidator_def
        first_mismatch_def check_order_def required_format_def)
  have "fst (FormatValidator f) \<longleftrightarrow> first_mismatch f = None"
    by (simp add: FormatValidator_def split: option.split)
  with same show ?thesis
    by (simp add: first_mismatch_None_iff)
qed

subsection \<open>One pass of the loop\<close>


lemma loopBody_cases:
  assumes "loopBody F it d = (es, d', brk)"
  obtains
    (read_error) "didErrorOccur it" "es = [ReadFromStream (m_maxSamplesPerPush d)]" "d' = d" "brk"
  | (no_words) "\<not> didErrorOccur it" "wordsRead it \<le> 0"
      "es = [ReadFromStream (m_maxSamplesPerPush d)]" "d' = d" "\<not> brk"
  | (partial) acc where "\<not> didErrorOccur it" "0 < wordsRead it"
      "acc = m_buffer d @ take (nat (wordsRead it)) (audioDataToPush it)"
      "length acc \<le> F"
      "es = [ReadFromStream (m_maxSamplesPerPush d), NotifyState ACTIVE]"
      "d' = d\<lparr>m_buffer := acc\<rparr>" "\<not> brk"
  | (quiet) acc where "\<not> didErrorOccur it" "0 < wordsRead it"
      "acc = m_buffer d @ take (nat (wordsRead it)) (audioDataToPush it)"
      "F < length acc" "status it = PV_STATUS_SUCCESS" "\<not> result it"
      "es = [ReadFromStream (m_maxSamplesPerPush d), NotifyState ACTIVE,
             PvPorcupineProcess (take F acc) PV_STATUS_SUCCESS False]"
      "d' = d\<lparr>m_buffer := drop F acc\<rparr>" "\<not> brk"
  | (detected) acc where "\<not> didErrorOccur it" "0 < wordsRead it"
      "acc = m_buffer d @ take (nat (wordsRead it)) (audioDataToPush it)"
      "F < length acc" "status it = PV_STATUS_SUCCESS" "result it"
      "es = [ReadFromStream (m_maxSamplesPerPush d), NotifyState ACTIVE,
             PvPorcupineProcess (take F acc) PV_STATUS_SUCCESS True,
             ReaderTell (tell it),
             NotifyKeyWord (m_stream d) (porcupineKeyword d) UNSPECIFIED_INDEX (tell it)]"
      "d' = d\<lparr>m_buffer := drop F acc\<rparr>" "\<not> brk"
  | (fatal) acc reason where "\<not> didErrorOccur it" "0 < wordsRead it"
      "acc = m_buffer d @ take (nat (wordsRead it)) (audioDataToPush it)"
      "F < length acc" "status it \<noteq> PV_STATUS_SUCCESS"
      "es = [ReadFromStream (m_maxSamplesPerPush d), NotifyState ACTIVE,
             PvPorcupineProcess (take F acc) (status it) (result it),
             LogError ''detectionLoopFailed'' reason, NotifyState ERROR]"
      "d' = d\<lparr>m_buffer := acc\<rparr>" "brk"
proof (cases "didErrorOccur it")
  case True
  with assms show ?thesis
    by (intro read_error) (auto simp: loopBody_def)
next
  case noerr: False
  show ?thesis
  proof (cases "0 < wordsRead it")
    case False
    with assms noerr show ?thesis
      by (intro no_words) (auto simp: loopBody_def)
  next
    case words: True
    define acc where "acc = m_buffer d @ take (nat (wordsRead it)) (audioDataToPush it)"
    show ?thesis
    proof (cases "F < length acc")
      case False
      with assms noerr words acc_def show ?thesis
        by (intro partial [of acc]) (auto simp: loopBody_def)
    next
      case full: True
      show ?thesis
      proof (cases "status it")
        case PV_STATUS_SUCCESS
        show ?thesis
        proof (cases "result it")
          case True
          with assms noerr words acc_def full PV_STATUS_SUCCESS show ?thesis
            by (intro detected [of acc]) (auto simp: loopBody_def)
        next
          case False
          with assms noerr words acc_def full PV_STATUS_SUCCESS show ?thesis
            by (intro quiet [of acc]) (auto simp: loopBody_def)
        qed
      next
        case PV_STATUS_OUT_OF_MEMORY
        with assms noerr words acc_def full show ?thesis
          by (intro fatal [of acc "''outOfMemory''"]) (auto simp: loopBody_def)
      next
        case PV_STATUS_IO_ERROR
        with assms noerr words acc_def full show ?thesis
          by (intro fatal [of acc "''IOError''"]) (auto simp: loopBody_def)
      next
        case PV_STATUS_INVALID_ARGUMENT
        with assms noerr words acc_def full show ?thesis
          by (intro fatal [of acc "''invalidArgument''"]) (auto simp: loopBody_def)
      qed
    qed
  qed
qed










lemma iterations_Cons_cases:
  assumes "iterations F (it # its) d = (es, d', left)"
  obtains
    (shutdown) "isShuttingDown it" "es = []" "d' = d" "left"
  | (leave) "\<not> isShuttingDown it" "loopBody F it d = (es, d', True)" "left"
  | (continue) es1 d1 es2 where "\<not> isShuttingDown it"
      "loopBody F it d = (es1, d1, False)" "iterations F its d1 = (es2, d', left)"
      "es = es1 @ es2"
proof (cases "isShuttingDown it")
  case True
  with assms show ?thesis by (intro shutdown) auto
next
  case running: False
  obtain es1 d1 brk where body: "loopBody F it d = (es1, d1, brk)"
    by (cases "loopBody F it d") auto
  show ?thesis
  proof (cases brk)
    case True
    with assms running body show ?thesis by (intro leave) auto
  next
    case False
    obtain es2 d2 l2 where rest: "iterations F its d1 = (es2, d2, l2)"
      by (cases "iterations F its d1") auto
    with assms running body False show ?thesis
      by (intro continue [of es1 d1 es2]) auto
  qed
qed

lemma accumulated:
  "\<not> didErrorOccur it \<Longrightarrow> 0 < wordsRead it \<Longrightarrow>
   acc = m_buffer d @ take (nat (wordsRead it)) (audioDataToPush it) \<Longrightarrow>
   m_buffer d @ wordsAppended it = acc"
  by (simp add: wordsAppended_def)

text \<open>
  C3, as the code has it: after an invocation of the engine's process call that returns
  success, with or without a detection, exactly \<open>frame_length\<close> samples are removed
  from the head of the buffer and the rest keeps its order. After an invocation that
  returns a fatal status the buffer is left as it was, and the loop is left. The frame
  passed to the engine is always the first \<open>frame_length\<close> samples.
\<close>
theorem frame_dropped_on_success:
  assumes "loopBody F it d = (es, d', brk)"
    and "PvPorcupineProcess fr st r \<in> set es"
  shows "fr = take F (m_buffer d @ wordsAppended it) \<and>
         F < length (m_buffer d @ wordsAppended it) \<and>
         (st = PV_STATUS_SUCCESS \<longrightarrow>
            m_buffer d' = drop F (m_buffer d @ wordsAppended it) \<and>
            length (m_buffer d') = length (m_buffer d @ wordsAppended it) - F \<and> \<not> brk) \<and>
         (st \<noteq> PV_STATUS_SUCCESS \<longrightarrow> m_buffer d' = m_buffer d @ wordsAppended it \<and> brk)"
  using assms(1)
proof (cases rule: loopBody_cases)
  case (quiet acc)
  note acc = accumulated [OF quiet(1-3)]
  from assms(2) quiet(4-) show ?thesis unfolding acc by auto
next
  case (detected acc)
  note acc = accumulated [OF detected(1-3)]
  from assms(2) detected(4-) show ?thesis unfolding acc by auto
next
  case (fatal acc reason)
  note acc = accumulated [OF fatal(1-3)]
  from assms(2) fatal(4-) show ?thesis unfolding acc by auto
qed (use assms(2) in auto)

text \<open>
  C7: one pass of the detection loop invokes the engine's process call at most once, and
  only when the accumulated buffer is strictly longer than the frame length. When the
  buffer holds \<open>frame_length\<close> samples or fewer, no process call is made and the
  buffer passed on to the next pass is the old buffer followed by the samples just read:
  nothing is padded, nothing is discarded.
\<close>
theorem process_only_on_full_frame:
  assumes "loopBody F it d = (es, d', brk)"
  shows "length (filter isProcessCall es) \<le> 1 \<and>
         ((\<exists>e \<in> set es. isProcessCall e) \<longrightarrow>
            F < length (m_buffer d @ wordsAppended it)) \<and>
         (length (m_buffer d @ wordsAppended it) \<le> F \<longrightarrow>
            filter isProcessCall es = [] \<and> m_buffer d' = m_buffer d @ wordsAppended it)"
  using assms
proof (cases rule: loopBody_cases)
  case read_error
  then show ?thesis by (simp add: wordsAppended_def)
next
  case no_words
  then show ?thesis by (simp add: wordsAppended_def)
next
  case (partial acc)
  note acc = accumulated [OF partial(1-3)]
  from partial(4-) show ?thesis unfolding acc by simp
next
  case (quiet acc)
  note acc = accumulated [OF quiet(1-3)]
  from quiet(4-) show ?thesis unfolding acc by simp
next
  case (detected acc)
  note acc = accumulated [OF detected(1-3)]
  from detected(4-) show ?thesis unfolding acc by simp
next
  case (fatal acc reason)
  note acc = accumulated [OF fatal(1-3)]
  from fatal(4-) show ?thesis unfolding acc by simp
qed


lemma split_append:
  assumes "xs @ ys = pre @ x # post"
  obtains (left) us where "xs = pre @ x # us" "post = us @ ys"
  | (right) mid where "pre = xs @ mid" "ys = mid @ x # post"
proof -
  from assms obtain us where
    "xs = pre @ us \<and> us @ ys = x # post \<or> xs @ us = pre \<and> ys = us @ x # post"
    by (auto simp: append_eq_append_conv2)
  then show ?thesis
  proof (elim disjE conjE)
    assume a: "xs = pre @ us" "us @ ys = x # post"
    show ?thesis
    proof (cases us)
      case Nil
      with a show ?thesis by (intro right [of "[]"]) auto
    next
      case (Cons u us')
      with a show ?thesis by (intro left [of us']) auto
    qed
  next
    assume "xs @ us = pre" "ys = us @ x # post"
    then show ?thesis by (intro right [of us]) auto
  qed
qed

lemma loopBody_head:
  assumes "loopBody F it d = (es, d', brk)"
  shows "\<exists>rest. es = ReadFromStream (m_maxSamplesPerPush d) # rest"
  using assms by (cases rule: loopBody_cases) auto

lemma loopBody_fields:
  assumes "loopBody F it d = (es, d', brk)"
  shows "m_stream d' = m_stream d \<and> porcupineKeyword d' = porcupineKeyword d \<and>
         m_maxSamplesPerPush d' = m_maxSamplesPerPush d"
  using assms by (cases rule: loopBody_cases) auto

lemma loopBody_no_close:
  assumes "loopBody F it d = (es, d', brk)"
  shows "ReaderClose \<notin> set es \<and> PvPorcupineDelete \<notin> set es"
  using assms by (cases rule: loopBody_cases) auto

lemma loopBody_continues:
  assumes "loopBody F it d = (es, d', False)"
  shows "NotifyState ERROR \<notin> set es"
    and "PvPorcupineProcess fr st r \<in> set es \<Longrightarrow> st = PV_STATUS_SUCCESS"
  using assms by (cases rule: loopBody_cases; auto)+

lemma loopBody_leaves:
  assumes "loopBody F it d = (es, d', True)"
    and "es = pre @ PvPorcupineProcess fr st r # post"
  shows "st \<noteq> PV_STATUS_SUCCESS \<and>
         (\<exists>reason. post = [LogError ''detectionLoopFailed'' reason, NotifyState ERROR]) \<and>
         NotifyState ERROR \<notin> set pre"
  using assms(1)
proof (cases rule: loopBody_cases)
  case read_error
  with assms(2) show ?thesis by (auto simp: Cons_eq_append_conv)
next
  case (fatal acc reason)
  from assms(2) fatal(5-) show ?thesis
    by (auto simp: Cons_eq_append_conv)
qed auto

lemma loopBody_detected:
  assumes "loopBody F it d = (es, d', brk)"
    and "es = pre @ PvPorcupineProcess fr PV_STATUS_SUCCESS True # post"
  shows "\<exists>pos. post = [ReaderTell pos,
           NotifyKeyWord (m_stream d) (porcupineKeyword d) UNSPECIFIED_INDEX pos]"
  using assms(1)
proof (cases rule: loopBody_cases)
  case read_error
  with assms(2) show ?thesis by (auto simp: Cons_eq_append_conv)
next
  case no_words
  with assms(2) show ?thesis by (auto simp: Cons_eq_append_conv)
next
  case (partial acc)
  from assms(2) partial(4-) show ?thesis by (auto simp: Cons_eq_append_conv)
next
  case (quiet acc)
  from assms(2) quiet(4-) show ?thesis by (auto simp: Cons_eq_append_conv)
next
  case (detected acc)
  from assms(2) detected(4-) show ?thesis by (auto simp: Cons_eq_append_conv)
next
  case (fatal acc reason)
  from assms(2) fatal(4-) show ?thesis by (auto simp: Cons_eq_append_conv)
qed

lemma iterations_head:
  assumes "iterations F its d = (es, d', left)"
  shows "es = [] \<or> (\<exists>n rest. es = ReadFromStream n # rest)"
proof (cases its)
  case Nil
  with assms show ?thesis by simp
next
  case (Cons it its')
  from assms [unfolded Cons] show ?thesis
  proof (cases rule: iterations_Cons_cases)
    case shutdown
    then show ?thesis by simp
  next
    case leave
    from loopBody_head [OF leave(2)] show ?thesis by auto
  next
    case (continue es1 d1 es2)
    from loopBody_head [OF continue(2)] continue(4) show ?thesis by auto
  qed
qed

lemma iterations_fields:
  "iterations F its d = (es, d', left) \<Longrightarrow>
   m_stream d' = m_stream d \<and> porcupineKeyword d' = porcupineKeyword d"
proof (induction its arbitrary: d es)
  case Nil
  then show ?case by simp
next
  case (Cons it its)
  from Cons.prems show ?case
  proof (cases rule: iterations_Cons_cases)
    case shutdown
    then show ?thesis by simp
  next
    case leave
    from loopBody_fields [OF leave(2)] show ?thesis by simp
  next
    case (continue es1 d1 es2)
    from loopBody_fields [OF continue(2)] Cons.IH [OF continue(3)] show ?thesis by simp
  qed
qed

lemma iterations_no_close:
  "iterations F its d = (es, d', left) \<Longrightarrow>
   ReaderClose \<notin> set es \<and> PvPorcupineDelete \<notin> set es"
proof (induction its arbitrary: d es)
  case Nil
  then show ?case by simp
next
  case (Cons it its)
  from Cons.prems show ?case
  proof (cases rule: iterations_Cons_cases)
    case shutdown
    then show ?thesis by simp
  next
    case leave
    from loopBody_no_close [OF leave(2)] show ?thesis by simp
  next
    case (continue es1 d1 es2)
    from loopBody_no_close [OF continue(2)] Cons.IH [OF continue(3)] continue(4)
    show ?thesis by simp
  qed
qed

lemma iterations_fatal:
  "iterations F its d = (es, d', left) \<Longrightarrow>
   es = pre @ PvPorcupineProcess fr st r # post \<Longrightarrow> st \<noteq> PV_STATUS_SUCCESS \<Longrightarrow>
   (\<exists>reason. post = [LogError ''detectionLoopFailed'' reason, NotifyState ERROR]) \<and>
   NotifyState ERROR \<notin> set pre \<and> left"
proof (induction its arbitrary: d es pre)
  case Nil
  then show ?case by simp
next
  case (Cons it its)
  from Cons.prems(1) show ?case
  proof (cases rule: iterations_Cons_cases)
    case shutdown
    with Cons.prems(2) show ?thesis by simp
  next
    case leave
    from loopBody_leaves [OF leave(2) Cons.prems(2)] leave(3) show ?thesis by simp
  next
    case (continue es1 d1 es2)
    from Cons.prems(2) continue(4)
    have "es1 @ es2 = pre @ PvPorcupineProcess fr st r # post" by simp
    then show ?thesis
    proof (cases rule: split_append)
      case (left us)
      with loopBody_continues(2) [OF continue(2), of fr st r] Cons.prems(3)
      show ?thesis by simp
    next
      case (right mid)
      from Cons.IH [OF continue(3) right(2) Cons.prems(3)]
        loopBody_continues(1) [OF continue(2)] right(1)
      show ?thesis by simp
    qed
  qed
qed

lemma iterations_detected:
  "iterations F its d = (es, d', left) \<Longrightarrow>
   es = pre @ PvPorcupineProcess fr PV_STATUS_SUCCESS True # post \<Longrightarrow>
   \<exists>pos rest. post = ReaderTell pos #
       NotifyKeyWord (m_stream d) (porcupineKeyword d) UNSPECIFIED_INDEX pos # rest \<and>
     (rest = [] \<or> (\<exists>n rest'. rest = ReadFromStream n # rest'))"
proof (induction its arbitrary: d es pre)
  case Nil
  then show ?case by simp
next
  case (Cons it its)
  from Cons.prems(1) show ?case
  proof (cases rule: iterations_Cons_cases)
    case shutdown
    with Cons.prems(2) show ?thesis by simp
  next
    case leave
    from loopBody_detected [OF leave(2) Cons.prems(2)] show ?thesis by auto
  next
    case (continue es1 d1 es2)
    from Cons.prems(2) continue(4)
    have "es1 @ es2 = pre @ PvPorcupineProcess fr PV_STATUS_SUCCESS True # post" by simp
    then show ?thesis
    proof (cases rule: split_append)
      case (left us)
      from loopBody_detected [OF continue(2) left(1)] iterations_head [OF continue(3)] left(2)
      show ?thesis by auto
    next
      case (right mid)
      from Cons.IH [OF continue(3) right(2)] loopBody_fields [OF continue(2)]
      show ?thesis by simp
    qed
  qed
qed




lemma detectionLoop_cases:
  assumes "detectionLoop F its d = (es, d', left)"
  obtains body where "iterations F its d = (body, d', left)"
    "es = NotifyState ACTIVE # body @ (if left then [ReaderClose] else [])"
  using assms unfolding detectionLoop_def
  by (cases "iterations F its d") auto

lemma detectionLoop_split:
  assumes "detectionLoop F its d = (es, d', left)"
    and "es = pre @ PvPorcupineProcess fr st r # post"
  obtains body pre' us where "iterations F its d = (body, d', left)"
    "body = pre' @ PvPorcupineProcess fr st r # us"
    "pre = NotifyState ACTIVE # pre'"
    "post = us @ (if left then [ReaderClose] else [])"
  using assms(1)
proof (cases rule: detectionLoop_cases)
  case (1 body)
  with assms(2)
  have "(NotifyState ACTIVE # body) @ (if left then [ReaderClose] else []) =
        pre @ PvPorcupineProcess fr st r # post" by simp
  then show ?thesis
  proof (cases rule: split_append)
    case (left us)
    then obtain pre' where "pre = NotifyState ACTIVE # pre'" "body = pre' @ PvPorcupineProcess fr st r # us"
      by (cases pre) auto
    with 1(1) left(2) show ?thesis by (intro that [of body pre' us]) auto
  next
    case (right mid)
    then have "PvPorcupineProcess fr st r \<in> set (if left then [ReaderClose] else [])"
      by (metis in_set_conv_decomp)
    then show ?thesis by (simp split: if_splits)
  qed
qed

text \<open>
  C8: when the engine's process call returns a fatal status (out of memory, I/O error,
  invalid argument), the loop logs the failure, notifies the state observers of ERROR,
  and is left; the reader is closed and the trace ends there. ERROR was not notified
  before, so it is notified exactly once, and no ACTIVE notification and no keyword
  notification follows it.
\<close>
theorem fatal_status_ends_loop:
  assumes "detectionLoop F its d = (es, d', left)"
    and "es = pre @ PvPorcupineProcess fr st r # post"
    and "st \<noteq> PV_STATUS_SUCCESS"
  shows "(\<exists>reason. post = [LogError ''detectionLoopFailed'' reason, NotifyState ERROR, ReaderClose]) \<and>
         NotifyState ERROR \<notin> set pre \<and> left"
  using assms(1,2)
proof (cases rule: detectionLoop_split)
  case (1 body pre' us)
  from iterations_fatal [OF 1(1,2) assms(3)] 1(3,4) show ?thesis by auto
qed

text \<open>
  C10: the detection thread's first action is to notify the state observers of ACTIVE.
  That is the only state notification before the first read of the stream, and it is
  made whatever the stream delivers, also when no sample is ever read.
\<close>
theorem first_notification_is_active:
  "(\<exists>rest. fst (detectionLoop F its d) = NotifyState ACTIVE # rest) \<and>
   filter isStateNotification
     (takeWhile (\<lambda>e. \<not> isStreamRead e) (fst (detectionLoop F its d))) = [NotifyState ACTIVE]"
proof -
  obtain es d' left where run: "detectionLoop F its d = (es, d', left)"
    by (cases "detectionLoop F its d") auto
  then show ?thesis
  proof (cases rule: detectionLoop_cases)
    case (1 body)
    from iterations_head [OF 1(1)] 1(2) run show ?thesis by auto
  qed
qed

lemma create_detector:
  assumes "create env stream fmt ms = (Inr (Some d), ces)"
  obtains s conf where "stream = Some s" "porcupineConf env = Inr conf"
    "\<not> isByteswappingRequired env fmt" "fst (isAudioFormatCompatibleWithPorcupine fmt)"
    "reader_created env"
    "m_stream d = s" "porcupineKeyword d = keyword_label conf" "m_buffer d = []"
    "m_detectionThread d"
    "ces = PvPorcupineInit (parameters_filepath conf) (keyword_filepath conf) (sensitivity conf)
              (init_status env) #
           (if init_status env \<noteq> PV_STATUS_SUCCESS
            then [LogError ''PorcupineKeyWordDetectorFailed'' ''Unknown''] else []) @
           [CreateReader True, ThreadStart]"
proof -
  obtain ok logged where fmt: "isAudioFormatCompatibleWithPorcupine fmt = (ok, logged)"
    by (cases "isAudioFormatCompatibleWithPorcupine fmt") auto
  then have logged: "ok \<Longrightarrow> logged = []"
    by (auto simp: isAudioFormatCompatibleWithPorcupine_def split: if_splits)
  from assms obtain s where s: "stream = Some s"
    by (cases stream) (auto simp: create_def)
  from assms s have nosw: "\<not> isByteswappingRequired env fmt"
    by (auto simp: create_def split: if_splits)
  from assms s nosw obtain conf where conf: "porcupineConf env = Inr conf"
    by (cases "porcupineConf env") (auto simp: create_def)
  from assms s nosw conf fmt have ok: "ok" and rd: "reader_created env"
    by (auto simp: create_def init_def constructor_def split: if_splits bool.splits)
  from assms s nosw conf fmt ok rd logged show ?thesis
    by (intro that [of s conf]) (auto simp: create_def init_def constructor_def)
qed

text \<open>
  C9: in the loop of a detector that \<^verbatim>\<open>create\<close> returned, whenever the engine's
  process call reports a detection, the keyword observers are notified exactly once for
  that frame, before the next read, with the stream handed to \<^verbatim>\<open>create\<close>, the keyword
  label of the configuration, \<^verbatim>\<open>UNSPECIFIED_INDEX\<close>, and the cursor the reader's
  \<^verbatim>\<open>tell\<close> returned at that moment.
\<close>
theorem detection_notifies_keyword_once:
  assumes "create env stream fmt ms = (Inr (Some d), ces)"
    and "detectionLoop F its d = (es, d', left)"
    and "es = pre @ PvPorcupineProcess fr PV_STATUS_SUCCESS True # post"
  shows "\<exists>s conf pos rest.
           stream = Some s \<and> porcupineConf env = Inr conf \<and>
           post = ReaderTell pos # NotifyKeyWord s (keyword_label conf) UNSPECIFIED_INDEX pos # rest \<and>
           (rest = [] \<or> rest = [ReaderClose] \<or> isStreamRead (hd rest))"
  using assms(1)
proof (cases rule: create_detector)
  case (1 s conf)
  from assms(2,3) show ?thesis
  proof (cases rule: detectionLoop_split)
    case (1 body pre' us)
    from iterations_detected [OF 1(1,2)] obtain pos rest where
      us: "us = ReaderTell pos # NotifyKeyWord (m_stream d) (porcupineKeyword d) UNSPECIFIED_INDEX pos # rest"
      and rest: "rest = [] \<or> (\<exists>n rest'. rest = ReadFromStream n # rest')"
      by blast
    from rest have "rest @ (if left then [ReaderClose] else []) = [] \<or>
        rest @ (if left then [ReaderClose] else []) = [ReaderClose] \<or>
        isStreamRead (hd (rest @ (if left then [ReaderClose] else [])))"
      by auto
    with us 1(4) \<open>stream = Some s\<close> \<open>porcupineConf env = Inr conf\<close>
      \<open>m_stream d = s\<close> \<open>porcupineKeyword d = keyword_label conf\<close>
    show ?thesis by simp
  qed
qed

subsection \<open>Creation, destruction and concrete runs\<close>

lemmas ex_defs = byteswapOnLittleEndianHost_def example_conf_def example_env_def
  unreadable_conf_env_def example_detector_def two_channel_format_def pass_def stop_pass_def
  required_format_def

text \<open>
  C1 asks that a failed \<^verbatim>\<open>pv_porcupine_init\<close> makes \<^verbatim>\<open>create\<close> return
  \<^verbatim>\<open>nullptr\<close> without starting the thread. With a readable configuration, the
  required format and a reader, and \<^verbatim>\<open>pv_porcupine_init\<close> returning an I/O error, the
  constructor logs the failure and \<^verbatim>\<open>create\<close> still starts the thread and returns the
  detector.
\<close>
theorem engine_init_failure_still_starts_thread:
  "create (example_env PV_STATUS_IO_ERROR) (Some 7) required_format 20 =
     (Inr (Some (example_detector\<lparr>m_porcupine := False\<rparr>)),
      [PvPorcupineInit ''porcupine_params.pv'' ''alexa_linux.ppn'' (1 / 2) PV_STATUS_IO_ERROR,
       LogError ''PorcupineKeyWordDetectorFailed'' ''Unknown'', CreateReader True, ThreadStart])"
  by (simp add: create_def constructor_def init_def isAudioFormatCompatibleWithPorcupine_def
      HERTZ_PER_KILOHERTZ_def ex_defs)

text \<open>
  C5 asks that a configuration file that cannot be opened or parsed makes
  \<^verbatim>\<open>create\<close> return \<^verbatim>\<open>nullptr\<close>. When the JSON library throws, nothing in
  \<^verbatim>\<open>create\<close> catches it: the exception leaves the function, before the constructor
  runs.
\<close>
theorem unreadable_configuration_throws:
  "create unreadable_conf_env (Some 7) required_format 20 = (Inl parse_error, [])"
  by (simp add: create_def ex_defs)

text \<open>
  C2 as stated fails: for a format with two channels on a little-endian host,
  \<^verbatim>\<open>pv_porcupine_init\<close> has been called, successfully, before the format check
  rejects the format.
\<close>
theorem engine_acquired_before_format_check_counterexample:
  "\<not> fst (isAudioFormatCompatibleWithPorcupine two_channel_format) \<and>
   create (example_env PV_STATUS_SUCCESS) (Some 7) two_channel_format 20 =
     (Inr None,
      [PvPorcupineInit ''porcupine_params.pv'' ''alexa_linux.ppn'' (1 / 2) PV_STATUS_SUCCESS,
       LogError ''isAudioFormatCompatibleWithPorcupineFailed'' ''numChannelsMismatch'',
       LogError ''createFailed'' ''initDetectorFailed''])"
  by (simp add: create_def constructor_def init_def destructor_def
      isAudioFormatCompatibleWithPorcupine_def HERTZ_PER_KILOHERTZ_def ex_defs)

lemma format_check_logs:
  "e \<in> set (snd (isAudioFormatCompatibleWithPorcupine f)) \<Longrightarrow> \<exists>a b. e = LogError a b"
  by (auto simp: isAudioFormatCompatibleWithPorcupine_def split: if_splits)

lemma format_check_accepts:
  "fst (isAudioFormatCompatibleWithPorcupine f) \<Longrightarrow> snd (isAudioFormatCompatibleWithPorcupine f) = []"
  by (auto simp: isAudioFormatCompatibleWithPorcupine_def split: if_splits)

lemma create_cases:
  assumes "create env stream fmt ms = (res, es)"
  obtains
    (null_stream) "stream = None" "res = Inr None" "es = [LogError ''createFailed'' ''nullStream'']"
  | (endian) s where "stream = Some s" "isByteswappingRequired env fmt" "res = Inr None"
      "es = [LogError ''createFailed'' ''endianMismatch'']"
  | (thrown) s e where "stream = Some s" "\<not> isByteswappingRequired env fmt"
      "porcupineConf env = Inl e" "res = Inl e" "es = []"
  | (bad_format) s conf where "stream = Some s" "\<not> isByteswappingRequired env fmt"
      "porcupineConf env = Inr conf" "\<not> fst (isAudioFormatCompatibleWithPorcupine fmt)"
      "res = Inr None"
      "es = PvPorcupineInit (parameters_filepath conf) (keyword_filepath conf) (sensitivity conf)
              (init_status env) #
            (if init_status env \<noteq> PV_STATUS_SUCCESS
             then [LogError ''PorcupineKeyWordDetectorFailed'' ''Unknown''] else []) @
            snd (isAudioFormatCompatibleWithPorcupine fmt) @
            [LogError ''createFailed'' ''initDetectorFailed'']"
  | (no_reader) s conf where "stream = Some s" "\<not> isByteswappingRequired env fmt"
      "porcupineConf env = Inr conf" "fst (isAudioFormatCompatibleWithPorcupine fmt)"
      "\<not> reader_created env" "res = Inr None"
      "es = PvPorcupineInit (parameters_filepath conf) (keyword_filepath conf) (sensitivity conf)
              (init_status env) #
            (if init_status env \<noteq> PV_STATUS_SUCCESS
             then [LogError ''PorcupineKeyWordDetectorFailed'' ''Unknown''] else []) @
            [CreateReader False, LogError ''initFailed'' ''createStreamReaderFailed'',
             LogError ''createFailed'' ''initDetectorFailed'']"
  | (created) s conf d where "stream = Some s" "\<not> isByteswappingRequired env fmt"
      "porcupineConf env = Inr conf" "fst (isAudioFormatCompatibleWithPorcupine fmt)"
      "reader_created env" "res = Inr (Some d)"
      "es = PvPorcupineInit (parameters_filepath conf) (keyword_filepath conf) (sensitivity conf)
              (init_status env) #
            (if init_status env \<noteq> PV_STATUS_SUCCESS
             then [LogError ''PorcupineKeyWordDetectorFailed'' ''Unknown''] else []) @
            [CreateReader True, ThreadStart]"
proof (cases stream)
  case None
  with assms show ?thesis by (intro null_stream) (auto simp: create_def)
next
  case (Some s)
  show ?thesis
  proof (cases "isByteswappingRequired env fmt")
    case True
    with assms Some show ?thesis by (intro endian [of s]) (auto simp: create_def)
  next
    case nosw: False
    show ?thesis
    proof (cases "porcupineConf env")
      case (Inl e)
      with assms Some nosw show ?thesis by (intro thrown [of s e]) (auto simp: create_def)
    next
      case (Inr conf)
      obtain ok logged where fmt: "isAudioFormatCompatibleWithPorcupine fmt = (ok, logged)"
        by (cases "isAudioFormatCompatibleWithPorcupine fmt") auto
      show ?thesis
      proof (cases ok)
        case False
        with assms Some nosw Inr fmt show ?thesis
          by (intro bad_format [of s conf])
            (auto simp: create_def init_def constructor_def destructor_def)
      next
        case True
        with fmt format_check_accepts [of fmt] have logged: "logged = []" by simp
        show ?thesis
        proof (cases "reader_created env")
          case False
          with assms Some nosw Inr fmt True logged show ?thesis
            by (intro no_reader [of s conf])
              (auto simp: create_def init_def constructor_def destructor_def)
        next
          case rd: True
          with assms Some nosw Inr fmt True logged show ?thesis
            by (intro created [of s conf "the (projr res)"])
              (auto simp: create_def init_def constructor_def destructor_def)
        qed
      qed
    qed
  qed
qed

text \<open>
  C2, as the code has it: the format check is evaluated before the stream reader is
  created and before the thread is started, but after the constructor has called
  \<^verbatim>\<open>pv_porcupine_init\<close>. If any field mismatches, \<^verbatim>\<open>create\<close> returns no
  detector, creates no reader and starts no thread; where the attempt reached the
  constructor, the trace is the engine initialisation, then the format check's log,
  then the failure of \<^verbatim>\<open>create\<close>.
\<close>
theorem format_checked_before_reader_and_thread:
  assumes "create env stream fmt ms = (res, es)"
    and "\<not> fst (isAudioFormatCompatibleWithPorcupine fmt)"
  shows "(\<forall>d. res \<noteq> Inr (Some d)) \<and> ThreadStart \<notin> set es \<and> (\<forall>b. CreateReader b \<notin> set es) \<and>
         (\<forall>s conf. stream = Some s \<and> \<not> isByteswappingRequired env fmt \<and>
                   porcupineConf env = Inr conf \<longrightarrow>
            res = Inr None \<and>
            es = PvPorcupineInit (parameters_filepath conf) (keyword_filepath conf)
                   (sensitivity conf) (init_status env) #
                 (if init_status env \<noteq> PV_STATUS_SUCCESS
                  then [LogError ''PorcupineKeyWordDetectorFailed'' ''Unknown''] else []) @
                 snd (isAudioFormatCompatibleWithPorcupine fmt) @
                 [LogError ''createFailed'' ''initDetectorFailed''])"
  using assms(1)
proof (cases rule: create_cases)
  case (bad_format s conf)
  then show ?thesis using format_check_logs [of _ fmt] by auto
qed (use assms(2) in auto)

text \<open>
  C4, as the code has it: the engine handle is never released. Neither \<^verbatim>\<open>create\<close>,
  nor the detection loop on any way out (shutdown, stream error, fatal engine status),
  nor the destructor calls \<^verbatim>\<open>pv_porcupine_delete\<close>. What is released exactly once
  is the stream reader: the worker closes it as its last action when the loop is left,
  and not before. The destructor raises the shutdown flag and joins the worker thread
  when it is joinable.
\<close>
theorem engine_never_released:
  "PvPorcupineDelete \<notin> set (snd (create env stream fmt ms)) \<and>
   PvPorcupineDelete \<notin> set (fst (detectionLoop F its d)) \<and>
   PvPorcupineDelete \<notin> set (snd (destructor d)) \<and>
   count_list (fst (detectionLoop F its d)) ReaderClose =
     (if snd (snd (detectionLoop F its d)) then 1 else 0) \<and>
   (snd (snd (detectionLoop F its d)) \<longrightarrow> last (fst (detectionLoop F its d)) = ReaderClose) \<and>
   m_isShuttingDown (fst (destructor d)) \<and>
   snd (destructor d) = (if m_detectionThread d then [ThreadJoin] else [])"
proof -
  obtain res ces where c: "create env stream fmt ms = (res, ces)"
    by (cases "create env stream fmt ms") auto
  then have 1: "PvPorcupineDelete \<notin> set ces"
    using format_check_logs [of _ fmt] by (cases rule: create_cases) auto
  obtain es d' left where run: "detectionLoop F its d = (es, d', left)"
    by (cases "detectionLoop F its d") auto
  then have 2: "PvPorcupineDelete \<notin> set es \<and>
      count_list es ReaderClose = (if left then 1 else 0) \<and> (left \<longrightarrow> last es = ReaderClose)"
  proof (cases rule: detectionLoop_cases)
    case (1 body)
    from iterations_no_close [OF 1(1)] 1(2) show ?thesis
      by (auto simp: count_list_0_iff)
  qed
  from 1 2 c run show ?thesis by (simp add: destructor_def)
qed



text \<open>
  C4 as stated fails: a detector is created, its loop is left on shutdown, the
  destructor runs, and the engine's release call has been made zero times, not once.
\<close>
theorem engine_released_once_counterexample:
  "fst (create (example_env PV_STATUS_SUCCESS) (Some 7) required_format 20) =
     Inr (Some example_detector) \<and>
   snd (snd (detectionLoop 2 [stop_pass] example_detector)) \<and>
   count_list
     (snd (create (example_env PV_STATUS_SUCCESS) (Some 7) required_format 20) @
      fst (detectionLoop 2 [stop_pass] example_detector) @
      snd (destructor example_detector)) PvPorcupineDelete = 0"
  by (simp add: create_def constructor_def init_def destructor_def detectionLoop_def
      isAudioFormatCompatibleWithPorcupine_def HERTZ_PER_KILOHERTZ_def ex_defs)

theorem engine_never_released_witness:
  "snd (snd (detectionLoop 2 [stop_pass] example_detector)) \<and>
   last (fst (detectionLoop 2 [stop_pass] example_detector)) = ReaderClose \<and>
   count_list (fst (detectionLoop 2 [stop_pass] example_detector)) ReaderClose = 1 \<and>
   PvPorcupineDelete \<notin> set (fst (detectionLoop 2 [stop_pass] example_detector))"
proof -
  have left: "snd (snd (detectionLoop 2 [stop_pass] example_detector))"
    by (simp add: detectionLoop_def ex_defs)
  with engine_never_released [of "example_env PV_STATUS_SUCCESS" "Some 7" required_format 20
      2 "[stop_pass]" example_detector]
  show ?thesis by simp
qed

text \<open>
  C3 as stated fails: with a frame length of 2 and three samples read, a process call
  that returns out-of-memory leaves all three samples in the buffer.
\<close>
theorem frame_dropped_after_fatal_status_counterexample:
  "PvPorcupineProcess [1, 2] PV_STATUS_OUT_OF_MEMORY False \<in>
     set (fst (loopBody 2 (pass 3 [1, 2, 3] PV_STATUS_OUT_OF_MEMORY False) example_detector)) \<and>
   m_buffer (fst (snd (loopBody 2 (pass 3 [1, 2, 3] PV_STATUS_OUT_OF_MEMORY False)
      example_detector))) = [1, 2, 3] \<and>
   m_buffer (fst (snd (loopBody 2 (pass 3 [1, 2, 3] PV_STATUS_OUT_OF_MEMORY False)
      example_detector))) \<noteq> drop 2 (m_buffer example_detector @ [1, 2, 3])"
  by (simp add: loopBody_def ex_defs)

theorem frame_dropped_on_success_witness:
  "loopBody 2 (pass 3 [1, 2, 3] PV_STATUS_SUCCESS False) example_detector =
     ([ReadFromStream 320, NotifyState ACTIVE,
       PvPorcupineProcess [1, 2] PV_STATUS_SUCCESS False],
      example_detector\<lparr>m_buffer := [3]\<rparr>, False) \<and>
   [3] = drop 2 (m_buffer example_detector @
           wordsAppended (pass 3 [1, 2, 3] PV_STATUS_SUCCESS False)) \<and>
   loopBody 2 (pass 3 [1, 2, 3] PV_STATUS_IO_ERROR False) example_detector =
     ([ReadFromStream 320, NotifyState ACTIVE,
       PvPorcupineProcess [1, 2] PV_STATUS_IO_ERROR False,
       LogError ''detectionLoopFailed'' ''IOError'', NotifyState ERROR],
      example_detector\<lparr>m_buffer := [1, 2, 3]\<rparr>, True) \<and>
   [1, 2, 3] = m_buffer example_detector @
           wordsAppended (pass 3 [1, 2, 3] PV_STATUS_IO_ERROR False)"
proof -
  have ok: "loopBody 2 (pass 3 [1, 2, 3] PV_STATUS_SUCCESS False) example_detector =
     ([ReadFromStream 320, NotifyState ACTIVE,
       PvPorcupineProcess [1, 2] PV_STATUS_SUCCESS False],
      example_detector\<lparr>m_buffer := [3]\<rparr>, False)"
    by (simp add: loopBody_def ex_defs)
  have bad: "loopBody 2 (pass 3 [1, 2, 3] PV_STATUS_IO_ERROR False) example_detector =
     ([ReadFromStream 320, NotifyState ACTIVE,
       PvPorcupineProcess [1, 2] PV_STATUS_IO_ERROR False,
       LogError ''detectionLoopFailed'' ''IOError'', NotifyState ERROR],
      example_detector\<lparr>m_buffer := [1, 2, 3]\<rparr>, True)"
    by (simp add: loopBody_def ex_defs)
  from frame_dropped_on_success [OF ok, of "[1, 2]" PV_STATUS_SUCCESS False]
    frame_dropped_on_success [OF bad, of "[1, 2]" PV_STATUS_IO_ERROR False] ok bad
  show ?thesis by simp
qed

theorem process_only_on_full_frame_witness:
  "loopBody 2 (pass 2 [1, 2] PV_STATUS_SUCCESS True) example_detector =
     ([ReadFromStream 320, NotifyState ACTIVE], example_detector\<lparr>m_buffer := [1, 2]\<rparr>, False) \<and>
   length (m_buffer example_detector @ wordsAppended (pass 2 [1, 2] PV_STATUS_SUCCESS True)) \<le> 2 \<and>
   [1, 2] = m_buffer example_detector @ wordsAppended (pass 2 [1, 2] PV_STATUS_SUCCESS True) \<and>
   loopBody 2 (pass 1 [3] PV_STATUS_SUCCESS False) (example_detector\<lparr>m_buffer := [1, 2]\<rparr>) =
     ([ReadFromStream 320, NotifyState ACTIVE,
       PvPorcupineProcess [1, 2] PV_STATUS_SUCCESS False],
      example_detector\<lparr>m_buffer := [3]\<rparr>, False) \<and>
   2 < length (m_buffer (example_detector\<lparr>m_buffer := [1, 2]\<rparr>) @
         wordsAppended (pass 1 [3] PV_STATUS_SUCCESS False))"
proof -
  have part: "loopBody 2 (pass 2 [1, 2] PV_STATUS_SUCCESS True) example_detector =
     ([ReadFromStream 320, NotifyState ACTIVE], example_detector\<lparr>m_buffer := [1, 2]\<rparr>, False)"
    by (simp add: loopBody_def ex_defs)
  have short: "length (m_buffer example_detector @
      wordsAppended (pass 2 [1, 2] PV_STATUS_SUCCESS True)) \<le> 2"
    by (simp add: wordsAppended_def ex_defs)
  have full: "loopBody 2 (pass 1 [3] PV_STATUS_SUCCESS False)
       (example_detector\<lparr>m_buffer := [1, 2]\<rparr>) =
     ([ReadFromStream 320, NotifyState ACTIVE,
       PvPorcupineProcess [1, 2] PV_STATUS_SUCCESS False],
      example_detector\<lparr>m_buffer := [3]\<rparr>, False)"
    by (simp add: loopBody_def ex_defs)
  from process_only_on_full_frame [OF part] process_only_on_full_frame [OF full] part short full
  show ?thesis by simp
qed

theorem fatal_status_ends_loop_witness:
  "detectionLoop 2 [pass 3 [1, 2, 3] PV_STATUS_IO_ERROR False, pass 1 [4] PV_STATUS_SUCCESS True]
     example_detector =
     ([NotifyState ACTIVE, ReadFromStream 320, NotifyState ACTIVE] @
      PvPorcupineProcess [1, 2] PV_STATUS_IO_ERROR False #
      [LogError ''detectionLoopFailed'' ''IOError'', NotifyState ERROR, ReaderClose],
      example_detector\<lparr>m_buffer := [1, 2, 3]\<rparr>, True) \<and>
   PV_STATUS_IO_ERROR \<noteq> PV_STATUS_SUCCESS \<and>
   NotifyState ERROR \<notin> set [NotifyState ACTIVE, ReadFromStream 320, NotifyState ACTIVE]"
proof -
  have run: "detectionLoop 2
      [pass 3 [1, 2, 3] PV_STATUS_IO_ERROR False, pass 1 [4] PV_STATUS_SUCCESS True]
      example_detector =
     ([NotifyState ACTIVE, ReadFromStream 320, NotifyState ACTIVE] @
      PvPorcupineProcess [1, 2] PV_STATUS_IO_ERROR False #
      [LogError ''detectionLoopFailed'' ''IOError'', NotifyState ERROR, ReaderClose],
      example_detector\<lparr>m_buffer := [1, 2, 3]\<rparr>, True)"
    by (simp add: detectionLoop_def loopBody_def ex_defs)
  from fatal_status_ends_loop [OF run refl] run show ?thesis by simp
qed

theorem detection_notifies_keyword_once_witness:
  "create (example_env PV_STATUS_SUCCESS) (Some 7) required_format 20 =
     (Inr (Some example_detector),
      [PvPorcupineInit ''porcupine_params.pv'' ''alexa_linux.ppn'' (1 / 2) PV_STATUS_SUCCESS,
       CreateReader True, ThreadStart]) \<and>
   detectionLoop 2 [pass 3 [1, 2, 3] PV_STATUS_SUCCESS True, stop_pass] example_detector =
     ([NotifyState ACTIVE, ReadFromStream 320, NotifyState ACTIVE] @
      PvPorcupineProcess [1, 2] PV_STATUS_SUCCESS True #
      [ReaderTell 3, NotifyKeyWord 7 ''alexa'' UNSPECIFIED_INDEX 3, ReaderClose],
      example_detector\<lparr>m_buffer := [3]\<rparr>, True) \<and>
   porcupineConf (example_env PV_STATUS_SUCCESS) = Inr example_conf \<and>
   keyword_label example_conf = ''alexa''"
proof -
  have made: "create (example_env PV_STATUS_SUCCESS) (Some 7) required_format 20 =
     (Inr (Some example_detector),
      [PvPorcupineInit ''porcupine_params.pv'' ''alexa_linux.ppn'' (1 / 2) PV_STATUS_SUCCESS,
       CreateReader True, ThreadStart])"
    by (simp add: create_def constructor_def init_def isAudioFormatCompatibleWithPorcupine_def
        HERTZ_PER_KILOHERTZ_def ex_defs)
  have run: "detectionLoop 2 [pass 3 [1, 2, 3] PV_STATUS_SUCCESS True, stop_pass]
      example_detector =
     ([NotifyState ACTIVE, ReadFromStream 320, NotifyState ACTIVE] @
      PvPorcupineProcess [1, 2] PV_STATUS_SUCCESS True #
      [ReaderTell 3, NotifyKeyWord 7 ''alexa'' UNSPECIFIED_INDEX 3, ReaderClose],
      example_detector\<lparr>m_buffer := [3]\<rparr>, True)"
    by (simp add: detectionLoop_def loopBody_def ex_defs)
  from detection_notifies_keyword_once [OF made run refl] made run
  show ?thesis by (simp add: example_env_def example_conf_def)
qed

theorem format_checked_before_reader_and_thread_witness:
  "create (example_env PV_STATUS_SUCCESS) (Some 7) two_channel_format 20 =
     (Inr None,
      [PvPorcupineInit ''porcupine_params.pv'' ''alexa_linux.ppn'' (1 / 2) PV_STATUS_SUCCESS,
       LogError ''isAudioFormatCompatibleWithPorcupineFailed'' ''numChannelsMismatch'',
       LogError ''createFailed'' ''initDetectorFailed'']) \<and>
   \<not> fst (isAudioFormatCompatibleWithPorcupine two_channel_format) \<and>
   \<not> isByteswappingRequired (example_env PV_STATUS_SUCCESS) two_channel_format \<and>
   porcupineConf (example_env PV_STATUS_SUCCESS) = Inr example_conf"
proof -
  have made: "create (example_env PV_STATUS_SUCCESS) (Some 7) two_channel_format 20 =
     (Inr None,
      [PvPorcupineInit ''porcupine_params.pv'' ''alexa_linux.ppn'' (1 / 2) PV_STATUS_SUCCESS,
       LogError ''isAudioFormatCompatibleWithPorcupineFailed'' ''numChannelsMismatch'',
       LogError ''createFailed'' ''initDetectorFailed''])"
    by (simp add: create_def constructor_def init_def destructor_def
        isAudioFormatCompatibleWithPorcupine_def HERTZ_PER_KILOHERTZ_def ex_defs)
  have bad: "\<not> fst (isAudioFormatCompatibleWithPorcupine two_channel_format)"
    by (simp add: isAudioFormatCompatibleWithPorcupine_def ex_defs)
  from format_checked_before_reader_and_thread [OF made bad] made bad
  show ?thesis by (simp add: ex_defs)
qed

end
